theory Spec2Isabelle
  imports
    Complex_Main
    "HOL-Library.AList"
    "HOL-Library.List_Lexorder"
    "HOL-Library.Multiset"
    "HOL-Library.Sublist"
begin

section \<open>Strings and numbers of the host language\<close>

text \<open>
  A JavaScript string is a sequence of UTF-16 code units, and the relational
  operators and the default \<^verbatim>\<open>Array.prototype.sort\<close> compare strings
  lexicographically, code unit by code unit. A string is modelled as the list
  of its code units (natural numbers), so the order \<open><\<close> on lists
  (the lexicographic one) is the order of the source. \<open>str\<close> writes an
  ASCII literal.
\<close>

type_synonym jsstring = "nat list"

definition str :: "string \<Rightarrow> jsstring" where
  "str s = map of_char s"

definition is_digit :: "nat \<Rightarrow> bool" where
  \<comment> \<open>the code units of \<^verbatim>\<open>0\<close> .. \<^verbatim>\<open>9\<close>, what \<^verbatim>\<open>\d\<close> matches\<close>
  "is_digit u = (48 \<le> u \<and> u \<le> 57)"

definition plus_sign :: nat where
  \<comment> \<open>the code unit of \<^verbatim>\<open>+\<close>\<close>
  "plus_sign = 43"

text \<open>
  A number is an IEEE double: not-a-number, an infinity, or a finite value,
  which is a rational. Only comparisons and the test against zero are used
  on them here.
\<close>

datatype jsnum = NaN | NegInfinity | Finite rat | Infinity

fun num_less :: "jsnum \<Rightarrow> jsnum \<Rightarrow> bool" where
  "num_less NaN b = False"
| "num_less a NaN = False"
| "num_less (Finite a) (Finite b) = (a < b)"
| "num_less a NegInfinity = False"
| "num_less NegInfinity b = True"
| "num_less Infinity b = False"
| "num_less a Infinity = True"

subsection \<open>normalizePhone (App.jsx, line 74)\<close>

text \<open>
  \<^verbatim>\<open>const normalizePhone = (t) => (t || "").replace(/[^+\d]/g, "");\<close>
  The argument is a string or absent (\<open>None\<close>); \<open>t || ""\<close> turns an
  absent value into the empty string. The global replace deletes every
  code unit that the class \<^verbatim>\<open>[^+\d]\<close> matches.
\<close>

definition matches_not_plus_digit :: "nat \<Rightarrow> bool" where
  "matches_not_plus_digit u = (u \<noteq> plus_sign \<and> \<not> is_digit u)"

definition or_empty :: "jsstring option \<Rightarrow> jsstring" where
  "or_empty t = (case t of None \<Rightarrow> [] | Some s \<Rightarrow> s)"

definition normalizePhone :: "jsstring option \<Rightarrow> jsstring" where
  "normalizePhone t = filter (\<lambda>u. \<not> matches_not_plus_digit u) (or_empty t)"

section \<open>Exceptions\<close>

text \<open>
  A computation that may throw returns a sum: \<open>Inl\<close> the exception,
  \<open>Inr\<close> the value. \<open>then_do\<close> runs the next statement when the
  first did not throw; \<open>fold_err\<close> is a loop over a list that the first
  exception ends.
\<close>

datatype js_error = TypeError

definition then_do :: "js_error + 'a \<Rightarrow> ('a \<Rightarrow> js_error + 'b) \<Rightarrow> js_error + 'b" where
  "then_do r f = (case r of Inl e \<Rightarrow> Inl e | Inr x \<Rightarrow> f x)"

fun fold_err :: "('a \<Rightarrow> 's \<Rightarrow> js_error + 's) \<Rightarrow> 'a list \<Rightarrow> 's \<Rightarrow> js_error + 's" where
  "fold_err f [] s = Inr s"
| "fold_err f (x # xs) s = then_do (f x s) (fold_err f xs)"

section \<open>Objects\<close>

text \<open>
  An object is the list of its own properties in enumeration order
  (what \<^verbatim>\<open>Object.keys\<close>, \<^verbatim>\<open>Object.entries\<close> and
  \<^verbatim>\<open>Object.values\<close> walk), each key once. Reading an own property is
  \<open>map_of\<close>; \<^verbatim>\<open>delete o[k]\<close> of an own property is
  \<open>AList.delete\<close>. \<open>obj_set\<close> makes or changes an own property:
  it keeps the place of a key the object already has;
  a new key that is an array index (a canonical decimal numeral below
  \<open>2^32 - 1\<close>) goes among the array indices in ascending numeric order,
  which come first, and any other new key goes last.
\<close>

type_synonym 'v obj = "(jsstring \<times> 'v) list"

definition index_value :: "jsstring \<Rightarrow> nat" where
  "index_value k = foldl (\<lambda>n u. 10 * n + (u - 48)) 0 k"

definition is_array_index :: "jsstring \<Rightarrow> bool" where
  "is_array_index k =
     (k \<noteq> [] \<and> list_all is_digit k \<and> (k = [48] \<or> hd k \<noteq> 48) \<and>
      index_value k < 4294967295)"

fun insert_index :: "jsstring \<Rightarrow> 'v \<Rightarrow> 'v obj \<Rightarrow> 'v obj" where
  "insert_index k v [] = [(k, v)]"
| "insert_index k v (p # ps) =
     (if is_array_index (fst p) \<and> index_value (fst p) < index_value k
      then p # insert_index k v ps
      else (k, v) # p # ps)"

definition obj_set :: "jsstring \<Rightarrow> 'v \<Rightarrow> 'v obj \<Rightarrow> 'v obj" where
  "obj_set k v ps =
     (if map_of ps k \<noteq> None then AList.update k v ps
      else if is_array_index k then insert_index k v ps
      else ps @ [(k, v)])"

text \<open>
  The objects of a document and the objects the program makes with
  \<^verbatim>\<open>{}\<close> inherit from \<^verbatim>\<open>Object.prototype\<close>, which has the properties
  below (\<^verbatim>\<open>__proto__\<close> with a getter and a setter, the others with a
  function as value). Reading \<^verbatim>\<open>o[k]\<close> gives the own property when
  there is one and the inherited one otherwise.

  \<open>asignar\<close> is the assignment \<^verbatim>\<open>o[k] = v\<close> to such an object. An own
  property is changed, and a new one is made, as \<open>obj_set\<close> says; but
  for the key \<^verbatim>\<open>__proto__\<close>, when the object has no own property of that
  name, the inherited setter runs and no own property is made: a number is
  ignored, and an object becomes the prototype of \<open>o\<close>, which changes
  neither the own properties nor what a later assignment does.
\<close>

definition nombres_heredados :: "jsstring list" where
  "nombres_heredados =
     [str ''constructor'', str ''__defineGetter__'', str ''__defineSetter__'',
      str ''hasOwnProperty'', str ''__lookupGetter__'', str ''__lookupSetter__'',
      str ''isPrototypeOf'', str ''propertyIsEnumerable'', str ''toString'',
      str ''valueOf'', str ''__proto__'', str ''toLocaleString'']"

definition asignar :: "jsstring \<Rightarrow> 'v \<Rightarrow> 'v obj \<Rightarrow> 'v obj" where
  "asignar k v ps =
     (if map_of ps k = None \<and> k = str ''__proto__'' then ps else obj_set k v ps)"

definition obj_keys :: "'v obj \<Rightarrow> jsstring list" where
  "obj_keys ps = map fst ps"

definition obj_values :: "'v obj \<Rightarrow> 'v list" where
  "obj_values ps = map snd ps"

subsection \<open>Array.prototype.sort with a comparator\<close>

text \<open>
  The sort is stable. With a comparator \<open>cmp\<close>, \<open>a\<close> is placed before
  \<open>b\<close> when \<open>cmp a b < 0\<close> and after it when \<open>cmp a b > 0\<close>, and the
  two keep their order when it is \<open>0\<close>: a stable insertion sort. Without a
  comparator the order is that of the strings, \<open>sort\<close>.
\<close>

fun insort_cmp :: "('a \<Rightarrow> 'a \<Rightarrow> int) \<Rightarrow> 'a \<Rightarrow> 'a list \<Rightarrow> 'a list" where
  "insort_cmp cmp x [] = [x]"
| "insort_cmp cmp x (y # ys) =
     (if cmp x y \<le> 0 then x # y # ys else y # insort_cmp cmp x ys)"

definition js_sort :: "('a \<Rightarrow> 'a \<Rightarrow> int) \<Rightarrow> 'a list \<Rightarrow> 'a list" where
  "js_sort cmp xs = foldr (insort_cmp cmp) xs []"

section \<open>The document (App.jsx, lines 65 to 71)\<close>

record alumno =
  alumno_id :: jsstring
  alumno_nombre :: jsstring
  telefono :: "jsstring option"

record clase =
  clase_id :: jsstring
  clase_nombre :: jsstring
  rango :: jsstring
  docente :: jsstring
  alumnos :: "alumno list"

record registro =
  presente :: "bool option"
  nota :: "jsstring option"

record document =
  version :: int
  updatedAt :: jsstring
  clases :: "clase list"
  asistencias :: "registro obj obj obj"

text \<open>
  \<^verbatim>\<open>state.asistencias[f]?.[classId]?.[alumnoId]\<close>: the record of a person on a
  date, \<open>None\<close> for \<^verbatim>\<open>undefined\<close>; and the truth value of
  \<^verbatim>\<open>reg?.presente\<close>.
\<close>

definition registro_de ::
    "registro obj obj obj \<Rightarrow> jsstring \<Rightarrow> jsstring \<Rightarrow> jsstring \<Rightarrow> registro option" where
  "registro_de asis f classId alumnoId =
     (case map_of asis f of
        None \<Rightarrow> None
      | Some porClase \<Rightarrow>
          (case map_of porClase classId of
             None \<Rightarrow> None
           | Some registros \<Rightarrow> map_of registros alumnoId))"

definition es_presente :: "registro option \<Rightarrow> bool" where
  "es_presente reg = (case reg of None \<Rightarrow> False | Some r \<Rightarrow> presente r = Some True)"

section \<open>Mutations (App.jsx, Configuracion, lines 536 to 569)\<close>

text \<open>
  Each mutation works on \<^verbatim>\<open>deepClone(prev)\<close>, a copy that shares nothing
  with \<open>prev\<close>: with values instead of references, the copy is \<open>prev\<close>
  itself. \<open>now\<close> is \<^verbatim>\<open>new Date().toISOString()\<close>.
  \<^verbatim>\<open>p.clases.find(...)\<close> gives the first class with the id, and the
  assignment to its field changes that element of the list.
\<close>

fun update_first :: "('a \<Rightarrow> bool) \<Rightarrow> ('a \<Rightarrow> 'a) \<Rightarrow> 'a list \<Rightarrow> 'a list" where
  "update_first P f [] = []"
| "update_first P f (x # xs) = (if P x then f x # xs else x # update_first P f xs)"

definition changeDocente :: "jsstring \<Rightarrow> jsstring \<Rightarrow> jsstring \<Rightarrow> document \<Rightarrow> document" where
  "changeDocente now classId d prev =
     (let p = prev;
          p1 = (case find (\<lambda>c. clase_id c = classId) (clases p) of
                  None \<Rightarrow> p
                | Some cls \<Rightarrow>
                    p\<lparr>clases := update_first (\<lambda>c. clase_id c = classId)
                                  (\<lambda>c. c\<lparr>docente := d\<rparr>) (clases p)\<rparr>)
      in p1\<lparr>updatedAt := now\<rparr>)"

text \<open>
  One turn of the loop over \<^verbatim>\<open>Object.keys(p.asistencias)\<close> in
  \<open>removeAlumno\<close>, lines 562 and 563. The date is an own key. When the
  class id is an own key of the date's object, its value is the object of
  the records of the class: the record of the person is deleted when it is
  an own property (a record is an object, so it is truthy); when the person
  id only names an inherited property, the test reads a function or
  \<^verbatim>\<open>Object.prototype\<close>, and \<^verbatim>\<open>delete\<close> finds no own property and
  changes nothing.

  When the class id is no own key but names a property of
  \<^verbatim>\<open>Object.prototype\<close>, the test reads a property of a built-in object
  (of \<^verbatim>\<open>Object\<close> for \<^verbatim>\<open>constructor\<close>, of \<^verbatim>\<open>Object.prototype\<close> for
  \<^verbatim>\<open>__proto__\<close>, of a built-in method otherwise) and, when it is truthy,
  \<^verbatim>\<open>delete\<close> removes it from that object or, in this strict code, throws
  when it cannot (\<^verbatim>\<open>constructor\<close> and \<^verbatim>\<open>prototype\<close>). The built-in objects
  are those of the host: their state \<open>e\<close> and what the test and the
  \<^verbatim>\<open>delete\<close> do to it, \<open>host e classId alumnoId\<close>, an exception or the
  next state, are parameters.
\<close>

type_synonym 'e host = "'e \<Rightarrow> jsstring \<Rightarrow> jsstring \<Rightarrow> js_error + 'e"

definition borrar_registro ::
    "'e host \<Rightarrow> jsstring \<Rightarrow> jsstring \<Rightarrow> jsstring \<Rightarrow>
     registro obj obj obj \<times> 'e \<Rightarrow> js_error + (registro obj obj obj \<times> 'e)" where
  "borrar_registro host classId alumnoId fecha s =
     (case s of (asis, e) \<Rightarrow>
       (case map_of asis fecha of
          None \<Rightarrow> Inr (asis, e)
        | Some porClase \<Rightarrow>
            (case map_of porClase classId of
               None \<Rightarrow>
                 if classId \<in> set nombres_heredados
                 then then_do (host e classId alumnoId) (\<lambda>e'. Inr (asis, e'))
                 else Inr (asis, e)
             | Some registros \<Rightarrow>
                 (case map_of registros alumnoId of
                    None \<Rightarrow> Inr (asis, e)
                  | Some r \<Rightarrow>
                      Inr (AList.update fecha
                             (AList.update classId (AList.delete alumnoId registros) porClase)
                             asis, e)))))"

definition removeAlumno ::
    "'e host \<Rightarrow> jsstring \<Rightarrow> jsstring \<Rightarrow> jsstring \<Rightarrow> document \<times> 'e \<Rightarrow>
     js_error + (document \<times> 'e)" where
  "removeAlumno host now classId alumnoId s =
     (case s of (prev, e) \<Rightarrow>
       (let p = prev in
        case find (\<lambda>c. clase_id c = classId) (clases p) of
          None \<Rightarrow> Inr (p, e)
        | Some cls \<Rightarrow>
            then_do
              (fold_err (borrar_registro host classId alumnoId)
                 (obj_keys (asistencias p)) (asistencias p, e))
              (\<lambda>(asis, e').
                 Inr (p\<lparr>clases := update_first (\<lambda>c. clase_id c = classId)
                                     (\<lambda>c. c\<lparr>alumnos :=
                                        filter (\<lambda>a. alumno_id a \<noteq> alumnoId) (alumnos c)\<rparr>)
                                     (clases p),
                         asistencias := asis,
                         updatedAt := now\<rparr>, e'))))"

section \<open>Statistics by date (App.jsx, StatsByDate, lines 328 to 343)\<close>





section \<open>Statistics by person (App.jsx, StatsByPerson, lines 431 to 475)\<close>

record persona =
  alumnoId :: jsstring
  nombre :: jsstring
  p_telefono :: "jsstring option"
  p_clase :: jsstring
  p_docente :: jsstring
  classId :: jsstring

record metricas = persona +
  presentes :: nat
  semanas :: nat
  porcentaje :: int
  lastAttendance :: "jsstring option"
  currentAbsentStreak :: nat
  abandono :: bool

definition entrada :: "clase \<Rightarrow> alumno \<Rightarrow> persona" where
  "entrada c a =
     \<lparr>alumnoId = alumno_id a, nombre = alumno_nombre a, p_telefono = telefono a,
      p_clase = clase_nombre c, p_docente = docente c, classId = clase_id c\<rparr>"

definition indice :: "clase list \<Rightarrow> persona obj" where
  \<comment> \<open>the object \<^verbatim>\<open>idx\<close>, filled with \<^verbatim>\<open>idx[a.id] = {...}\<close>\<close>
  "indice cs =
     fold (\<lambda>c idx. fold (\<lambda>a idx'. asignar (alumno_id a) (entrada c a) idx') (alumnos c) idx)
       cs []"

text \<open>
  The variables of the loop over the dates, from the last one down. The test
  \<^verbatim>\<open>!lastAttendance\<close> holds for \<^verbatim>\<open>null\<close> and for the empty string.
\<close>

record bucle =
  b_presentes :: nat
  b_lastAttendance :: "jsstring option"
  b_currentAbsentStreak :: nat
  b_running :: nat

definition sin_asistencia :: "jsstring option \<Rightarrow> bool" where
  "sin_asistencia la = (case la of None \<Rightarrow> True | Some f \<Rightarrow> f = [])"

definition paso :: "registro obj obj obj \<Rightarrow> persona \<Rightarrow> jsstring \<Rightarrow> bucle \<Rightarrow> bucle" where
  "paso asis p f b =
     (if es_presente (registro_de asis f (classId p) (alumnoId p)) then
        b\<lparr>b_presentes := b_presentes b + 1,
          b_lastAttendance :=
            (if sin_asistencia (b_lastAttendance b) then Some f else b_lastAttendance b),
          b_currentAbsentStreak :=
            (if b_running b = 0 then 0 else b_currentAbsentStreak b),
          b_running := 0\<rparr>
      else
        b\<lparr>b_running := b_running b + 1,
          b_currentAbsentStreak :=
            (if sin_asistencia (b_lastAttendance b) then b_running b + 1
             else b_currentAbsentStreak b)\<rparr>)"

definition recorrer :: "registro obj obj obj \<Rightarrow> persona \<Rightarrow> jsstring list \<Rightarrow> bucle" where
  "recorrer asis p fechas =
     fold (paso asis p) (rev fechas)
       \<lparr>b_presentes = 0, b_lastAttendance = None, b_currentAbsentStreak = 0, b_running = 0\<rparr>"

text \<open>
  \<^verbatim>\<open>Math.round((presentes / weeksTotal) * 100)\<close> is computed by the host in
  doubles, where the quotient and the product are each rounded to a double
  before \<^verbatim>\<open>Math.round\<close> rounds to an integer. The function of
  \<open>presentes\<close> and \<open>weeksTotal\<close> so computed, \<open>porciento\<close>, is a
  parameter.
\<close>

definition fechas_de :: "document \<Rightarrow> jsstring list" where
  "fechas_de state = sort (obj_keys (asistencias state))"

definition medir :: "(nat \<Rightarrow> nat \<Rightarrow> int) \<Rightarrow> document \<Rightarrow> persona \<Rightarrow> metricas" where
  "medir porciento state p =
     (let fechas = fechas_de state;
          weeksTotal = length fechas;
          b = recorrer (asistencias state) p fechas
      in persona.extend p
           \<lparr>presentes = b_presentes b,
            semanas = weeksTotal,
            porcentaje =
              (if weeksTotal \<noteq> 0
               then porciento (b_presentes b) weeksTotal else 0),
            lastAttendance = b_lastAttendance b,
            currentAbsentStreak = b_currentAbsentStreak b,
            abandono = (3 \<le> b_currentAbsentStreak b)\<rparr>)"

definition comparar ::
    "(jsstring \<Rightarrow> jsstring \<Rightarrow> int) \<Rightarrow> metricas \<Rightarrow> metricas \<Rightarrow> int" where
  "comparar localeCompare a b =
     (if abandono a \<noteq> abandono b then of_bool (abandono b) - of_bool (abandono a)
      else if currentAbsentStreak a \<noteq> currentAbsentStreak b
        then int (currentAbsentStreak b) - int (currentAbsentStreak a)
      else localeCompare (nombre a) (nombre b))"

definition personas ::
    "(nat \<Rightarrow> nat \<Rightarrow> int) \<Rightarrow> (jsstring \<Rightarrow> jsstring \<Rightarrow> int) \<Rightarrow> document \<Rightarrow> metricas list" where
  "personas porciento localeCompare state =
     js_sort (comparar localeCompare)
       (map (medir porciento state) (obj_values (indice (clases state))))"

section \<open>Values as the normalizer sees them\<close>

text \<open>
  \<open>ensureStateShape\<close> receives whatever \<^verbatim>\<open>JSON.parse\<close> produced, or
  \<^verbatim>\<open>null\<close>. An array carries, besides its elements, the named properties
  assigned to it.
\<close>

datatype jsval =
    JUndefined
  | JNull
  | JBool bool
  | JNum jsnum
  | JStr jsstring
  | JArr "jsval list" "(jsstring \<times> jsval) list"
  | JObj "(jsstring \<times> jsval) list"

fun truthy :: "jsval \<Rightarrow> bool" where
  "truthy JUndefined = False"
| "truthy JNull = False"
| "truthy (JBool b) = b"
| "truthy (JNum n) = (n \<noteq> NaN \<and> n \<noteq> Finite 0)"
| "truthy (JStr s) = (s \<noteq> [])"
| "truthy (JArr es ps) = True"
| "truthy (JObj ps) = True"

fun typeof_object :: "jsval \<Rightarrow> bool" where
  \<comment> \<open>\<^verbatim>\<open>typeof v === "object"\<close>\<close>
  "typeof_object JNull = True"
| "typeof_object (JArr es ps) = True"
| "typeof_object (JObj ps) = True"
| "typeof_object v = False"

fun isArray :: "jsval \<Rightarrow> bool" where
  "isArray (JArr es ps) = True"
| "isArray v = False"

definition buscar :: "jsval obj \<Rightarrow> jsstring \<Rightarrow> jsval" where
  "buscar ps k = (case map_of ps k of None \<Rightarrow> JUndefined | Some v \<Rightarrow> v)"

text \<open>
  Reading and assigning a named property, for the names the program uses
  (\<^verbatim>\<open>clases\<close>, \<^verbatim>\<open>asistencias\<close>, \<^verbatim>\<open>version\<close>, \<^verbatim>\<open>updatedAt\<close>,
  \<^verbatim>\<open>alumnos\<close>): none is an array index or a property of a prototype.
  Reading from \<^verbatim>\<open>null\<close> or \<^verbatim>\<open>undefined\<close> throws; reading from another
  primitive gives \<^verbatim>\<open>undefined\<close>. The file is a module, hence strict code,
  where assigning to a property of a primitive throws as well.
\<close>

fun get_prop :: "jsval \<Rightarrow> jsstring \<Rightarrow> js_error + jsval" where
  "get_prop JUndefined k = Inl TypeError"
| "get_prop JNull k = Inl TypeError"
| "get_prop (JObj ps) k = Inr (buscar ps k)"
| "get_prop (JArr es ps) k = Inr (buscar ps k)"
| "get_prop v k = Inr JUndefined"

fun set_prop :: "jsval \<Rightarrow> jsstring \<Rightarrow> jsval \<Rightarrow> js_error + jsval" where
  "set_prop (JObj ps) k v = Inr (JObj (obj_set k v ps))"
| "set_prop (JArr es ps) k v = Inr (JArr es (obj_set k v ps))"
| "set_prop w k v = Inl TypeError"

fun forEach :: "('a \<Rightarrow> js_error + 'a) \<Rightarrow> 'a list \<Rightarrow> js_error + 'a list" where
  \<comment> \<open>the callback changes the element in place; the first exception ends the walk\<close>
  "forEach f [] = Inr []"
| "forEach f (c # cs) =
     then_do (f c) (\<lambda>c'. then_do (forEach f cs) (\<lambda>cs'. Inr (c' # cs')))"

section \<open>ensureStateShape (App.jsx, lines 57 to 88)\<close>

definition default_clase :: "jsstring \<Rightarrow> jsstring \<Rightarrow> jsstring \<Rightarrow> jsval" where
  "default_clase i n r =
     JObj [(str ''id'', JStr i), (str ''nombre'', JStr n), (str ''rango'', JStr r),
           (str ''docente'', JStr []), (str ''alumnos'', JArr [] [])]"

definition DEFAULT_CLASSES :: "jsval list" where
  \<comment> \<open>8211 is the en dash, 241 and 237 the letters n with tilde and i with acute\<close>
  "DEFAULT_CLASSES =
     [default_clase (str ''logos'') (str ''Logos'')
        (str ''18'' @ [8211] @ str ''24 a'' @ [241] @ str ''os''),
      default_clase (str ''smart'') (str ''Smart Class'')
        (str ''25'' @ [8211] @ str ''39 a'' @ [241] @ str ''os''),
      default_clase (str ''moriah'') (str ''Moriah'')
        (str ''40'' @ [8211] @ str ''55 a'' @ [241] @ str ''os''),
      default_clase (str ''horeb'') (str ''Horeb'')
        (str ''56'' @ [8211] @ str ''65 a'' @ [241] @ str ''os''),
      default_clase (str ''sabiduria'') (str ''Sabidur'' @ [237] @ str ''a'')
        (str ''+66 a'' @ [241] @ str ''os'')]"

definition base :: "jsstring \<Rightarrow> jsval" where
  "base now =
     JObj [(str ''version'', JNum (Finite 1)), (str ''updatedAt'', JStr now),
           (str ''clases'', JArr DEFAULT_CLASSES []), (str ''asistencias'', JObj [])]"

definition poner_clases :: "jsstring \<Rightarrow> jsval \<Rightarrow> js_error + jsval" where
  \<comment> \<open>line 79\<close>
  "poner_clases now s =
     then_do (get_prop s (str ''clases'')) (\<lambda>c.
       if \<not> isArray c
       then then_do (get_prop (base now) (str ''clases'')) (set_prop s (str ''clases''))
       else Inr s)"

definition poner_asistencias :: "jsval \<Rightarrow> js_error + jsval" where
  \<comment> \<open>line 80\<close>
  "poner_asistencias s =
     then_do (get_prop s (str ''asistencias'')) (\<lambda>a.
       if \<not> truthy a \<or> \<not> typeof_object a
       then set_prop s (str ''asistencias'') (JObj [])
       else Inr s)"

definition poner_version :: "jsval \<Rightarrow> js_error + jsval" where
  \<comment> \<open>line 81\<close>
  "poner_version s =
     then_do (get_prop s (str ''version'')) (\<lambda>v.
       if \<not> truthy v then set_prop s (str ''version'') (JNum (Finite 1)) else Inr s)"

definition poner_updatedAt :: "jsstring \<Rightarrow> jsval \<Rightarrow> js_error + jsval" where
  \<comment> \<open>line 82\<close>
  "poner_updatedAt now s =
     then_do (get_prop s (str ''updatedAt'')) (\<lambda>u.
       if \<not> truthy u then set_prop s (str ''updatedAt'') (JStr now) else Inr s)"

definition normalizar_alumno :: "jsval \<Rightarrow> js_error + jsval" where
  \<comment> \<open>line 85, the callback\<close>
  "normalizar_alumno c =
     then_do (get_prop c (str ''alumnos'')) (\<lambda>a.
       if \<not> isArray a then set_prop c (str ''alumnos'') (JArr [] []) else Inr c)"

definition normalizar_alumnos :: "jsval \<Rightarrow> js_error + jsval" where
  \<comment> \<open>lines 84 to 86; a value that is no array has no \<^verbatim>\<open>forEach\<close> to call\<close>
  "normalizar_alumnos s =
     then_do (get_prop s (str ''clases'')) (\<lambda>cl.
       case cl of
         JArr es ps \<Rightarrow>
           then_do (forEach normalizar_alumno es) (\<lambda>es'.
             set_prop s (str ''clases'') (JArr es' ps))
       | _ \<Rightarrow> Inl TypeError)"

definition ensureStateShape :: "jsstring \<Rightarrow> jsval \<Rightarrow> js_error + jsval" where
  "ensureStateShape now s =
     (if \<not> truthy s \<or> \<not> typeof_object s then Inr (base now)
      else
        then_do (poner_clases now s) (\<lambda>s1.
        then_do (poner_asistencias s1) (\<lambda>s2.
        then_do (poner_version s2) (\<lambda>s3.
        then_do (poner_updatedAt now s3) (\<lambda>s4.
        normalizar_alumnos s4)))))"

section \<open>Startup reconciliation (App.jsx, App, lines 728 to 734)\<close>

text \<open>The JSON form of a document, as the cache and the remote store hold it.\<close>

definition alumno_js :: "alumno \<Rightarrow> jsval" where
  "alumno_js a =
     JObj ([(str ''id'', JStr (alumno_id a)), (str ''nombre'', JStr (alumno_nombre a))] @
           (case telefono a of None \<Rightarrow> [] | Some t \<Rightarrow> [(str ''telefono'', JStr t)]))"

definition clase_js :: "clase \<Rightarrow> jsval" where
  "clase_js c =
     JObj [(str ''id'', JStr (clase_id c)), (str ''nombre'', JStr (clase_nombre c)),
           (str ''rango'', JStr (rango c)), (str ''docente'', JStr (docente c)),
           (str ''alumnos'', JArr (map alumno_js (alumnos c)) [])]"

definition registro_js :: "registro \<Rightarrow> jsval" where
  "registro_js r =
     JObj ((case presente r of None \<Rightarrow> [] | Some b \<Rightarrow> [(str ''presente'', JBool b)]) @
           (case nota r of None \<Rightarrow> [] | Some n \<Rightarrow> [(str ''nota'', JStr n)]))"

definition obj_js :: "('v \<Rightarrow> jsval) \<Rightarrow> 'v obj \<Rightarrow> jsval" where
  "obj_js f ps = JObj (map (\<lambda>(k, v). (k, f v)) ps)"

definition document_js :: "document \<Rightarrow> jsval" where
  "document_js d =
     JObj [(str ''version'', JNum (Finite (of_int (version d)))),
           (str ''updatedAt'', JStr (updatedAt d)),
           (str ''clases'', JArr (map clase_js (clases d)) []),
           (str ''asistencias'', obj_js (obj_js (obj_js registro_js)) (asistencias d))]"

text \<open>
  \<^verbatim>\<open>(remote.updatedAt || 0) > (local.updatedAt || 0)\<close>, for timestamps that are
  strings. \<open>x || 0\<close> is the number \<open>0\<close> for the empty string. Two strings
  are compared as strings; otherwise both sides are converted to numbers
  (the conversion of a string, \<^verbatim>\<open>ToNumber\<close>, is a parameter) and a
  not-a-number makes the comparison false.
\<close>

datatype primitivo = PStr jsstring | PNum jsnum

definition o_cero :: "jsstring \<Rightarrow> primitivo" where
  "o_cero s = (if s = [] then PNum (Finite 0) else PStr s)"

fun mayor :: "(jsstring \<Rightarrow> jsnum) \<Rightarrow> primitivo \<Rightarrow> primitivo \<Rightarrow> bool" where
  "mayor toNumber (PStr a) (PStr b) = (b < a)"
| "mayor toNumber (PStr a) (PNum n) = num_less n (toNumber a)"
| "mayor toNumber (PNum m) (PStr b) = num_less (toNumber b) m"
| "mayor toNumber (PNum m) (PNum n) = num_less n m"

definition remote_is_newer :: "(jsstring \<Rightarrow> jsnum) \<Rightarrow> document \<Rightarrow> document \<Rightarrow> bool" where
  "remote_is_newer toNumber local remote =
     mayor toNumber (o_cero (updatedAt remote)) (o_cero (updatedAt local))"

definition newer :: "(jsstring \<Rightarrow> jsnum) \<Rightarrow> document \<Rightarrow> document \<Rightarrow> document" where
  \<comment> \<open>line 732\<close>
  "newer toNumber local remote =
     (if remote_is_newer toNumber local remote then remote else local)"

definition estado_inicial ::
    "jsstring \<Rightarrow> (jsstring \<Rightarrow> jsnum) \<Rightarrow> document \<Rightarrow> document \<Rightarrow> js_error + jsval" where
  \<comment> \<open>line 733, the argument of \<^verbatim>\<open>setState\<close>\<close>
  "estado_inicial now toNumber local remote =
     ensureStateShape now (document_js (newer toNumber local remote))"

section \<open>What the normalizer leaves behind\<close>

text \<open>
  \<open>campo\<close> reads a property where no exception matters. A value is well
  formed when it is an object whose \<^verbatim>\<open>clases\<close> is an array, whose
  \<^verbatim>\<open>asistencias\<close> is an object (\<^verbatim>\<open>typeof\<close> says so of an array too),
  whose \<^verbatim>\<open>version\<close> and \<^verbatim>\<open>updatedAt\<close> are truthy, and in which every
  class has an array \<^verbatim>\<open>alumnos\<close>.
\<close>

definition campo :: "jsval \<Rightarrow> jsstring \<Rightarrow> jsval" where
  "campo s k = (case get_prop s k of Inl e \<Rightarrow> JUndefined | Inr v \<Rightarrow> v)"

fun elementos :: "jsval \<Rightarrow> jsval list" where
  "elementos (JArr es ps) = es"
| "elementos v = []"

fun propiedades :: "jsval \<Rightarrow> jsval obj" where
  "propiedades (JObj ps) = ps"
| "propiedades (JArr es ps) = ps"
| "propiedades v = []"

definition es_objeto :: "jsval \<Rightarrow> bool" where
  "es_objeto v = (truthy v \<and> typeof_object v)"

definition roster_es_lista :: "jsval \<Rightarrow> bool" where
  "roster_es_lista c = isArray (campo c (str ''alumnos''))"

definition bien_formado :: "jsval \<Rightarrow> bool" where
  "bien_formado s =
     (es_objeto s \<and>
      isArray (campo s (str ''clases'')) \<and>
      es_objeto (campo s (str ''asistencias'')) \<and>
      truthy (campo s (str ''version'')) \<and>
      truthy (campo s (str ''updatedAt'')) \<and>
      list_all roster_es_lista (elementos (campo s (str ''clases''))))"

definition clases_de_objetos :: "jsval \<Rightarrow> bool" where
  "clases_de_objetos s = list_all es_objeto (elementos (campo s (str ''clases'')))"

text \<open>
  What lines 79 to 82 do to the list of properties of an object or of an
  array, and what holds of that list once the normalizer has returned; both
  are proved of \<open>ensureStateShape\<close> below.
\<close>

definition fijar_clases :: "jsval obj \<Rightarrow> jsval obj" where
  "fijar_clases ps =
     (if isArray (buscar ps (str ''clases'')) then ps
      else obj_set (str ''clases'') (JArr DEFAULT_CLASSES []) ps)"

definition fijar_asistencias :: "jsval obj \<Rightarrow> jsval obj" where
  "fijar_asistencias ps =
     (if es_objeto (buscar ps (str ''asistencias'')) then ps
      else obj_set (str ''asistencias'') (JObj []) ps)"

definition fijar_version :: "jsval obj \<Rightarrow> jsval obj" where
  "fijar_version ps =
     (if truthy (buscar ps (str ''version'')) then ps
      else obj_set (str ''version'') (JNum (Finite 1)) ps)"

definition fijar_updatedAt :: "jsstring \<Rightarrow> jsval obj \<Rightarrow> jsval obj" where
  "fijar_updatedAt now ps =
     (if truthy (buscar ps (str ''updatedAt'')) then ps
      else obj_set (str ''updatedAt'') (JStr now) ps)"

definition fijar :: "jsstring \<Rightarrow> jsval obj \<Rightarrow> jsval obj" where
  "fijar now ps = fijar_updatedAt now (fijar_version (fijar_asistencias (fijar_clases ps)))"

definition normal :: "jsstring \<Rightarrow> jsval obj \<Rightarrow> bool" where
  "normal now ps =
     (isArray (buscar ps (str ''clases'')) \<and>
      es_objeto (buscar ps (str ''asistencias'')) \<and>
      truthy (buscar ps (str ''version'')) \<and>
      (truthy (buscar ps (str ''updatedAt'')) \<or> buscar ps (str ''updatedAt'') = JStr now) \<and>
      list_all roster_es_lista (elementos (buscar ps (str ''clases''))))"

section \<open>The loop of removeAlumno on the attendance alone\<close>

text \<open>
  What a turn of the loop of \<open>removeAlumno\<close> does to the attendance when
  it does not reach the built-in objects; proved of \<open>borrar_registro\<close>
  below, for a class id that names no property of \<^verbatim>\<open>Object.prototype\<close>.
\<close>

definition borrar_propio ::
    "jsstring \<Rightarrow> jsstring \<Rightarrow> jsstring \<Rightarrow> registro obj obj obj \<Rightarrow> registro obj obj obj" where
  "borrar_propio cId aId fecha asis =
     (case map_of asis fecha of
        None \<Rightarrow> asis
      | Some porClase \<Rightarrow>
          (case map_of porClase cId of
             None \<Rightarrow> asis
           | Some registros \<Rightarrow>
               (case map_of registros aId of
                  None \<Rightarrow> asis
                | Some r \<Rightarrow>
                    AList.update fecha
                      (AList.update cId (AList.delete aId registros) porClase)
                      asis)))"

section \<open>Normalized documents\<close>

text \<open>
  Of a document, the normalizer leaves \<open>version\<close> and \<open>updatedAt\<close>
  truthy: a number other than zero, a string other than the empty one.
\<close>

definition normalizado :: "document \<Rightarrow> bool" where
  "normalizado d = (version d \<noteq> 0 \<and> updatedAt d \<noteq> [])"

section \<open>The claims in the words of the specification, and their hypotheses\<close>

text \<open>
  Written after the specification, not after the code: the number of
  consecutive most recent dates, from the last one backward, on which the
  person is not present, up to the first date with a presence.
\<close>

definition racha_segun_spec ::
    "registro obj obj obj \<Rightarrow> jsstring \<Rightarrow> jsstring \<Rightarrow> jsstring list \<Rightarrow> nat" where
  "racha_segun_spec asis cId aId fechas =
     length (takeWhile (\<lambda>f. \<not> es_presente (registro_de asis f cId aId)) (rev fechas))"



text \<open>
  The loop of \<open>removeAlumno\<close> stays within the document: no date has an
  object in which the class id is no own key and yet names a property of
  \<^verbatim>\<open>Object.prototype\<close>.
\<close>

definition sin_lectura_heredada :: "jsstring \<Rightarrow> registro obj obj obj \<Rightarrow> bool" where
  "sin_lectura_heredada cId asis =
     list_all (\<lambda>(f, porClase). map_of porClase cId \<noteq> None \<or> cId \<notin> set nombres_heredados)
       asis"

text \<open>The pairs (class id, person id) of the rosters, and the pair of an entry.\<close>

definition pares :: "clase list \<Rightarrow> (jsstring \<times> jsstring) list" where
  \<comment> \<open>the pairs (class id, person id) of the rosters\<close>
  "pares cs = concat (map (\<lambda>c. map (\<lambda>a. (clase_id c, alumno_id a)) (alumnos c)) cs)"

definition par_de :: "metricas \<Rightarrow> jsstring \<times> jsstring" where
  "par_de m = (classId m, alumnoId m)"

section \<open>Example values\<close>

definition reg_ejemplo :: "bool \<Rightarrow> registro" where
  "reg_ejemplo b = \<lparr>presente = Some b, nota = None\<rparr>"

definition alumno_ejemplo :: "string \<Rightarrow> string \<Rightarrow> alumno" where
  "alumno_ejemplo i n = \<lparr>alumno_id = str i, alumno_nombre = str n, telefono = None\<rparr>"

definition clase_ejemplo :: "string \<Rightarrow> string \<Rightarrow> alumno list \<Rightarrow> clase" where
  "clase_ejemplo i n as =
     \<lparr>clase_id = str i, clase_nombre = str n, rango = [], docente = [], alumnos = as\<rparr>"

definition now_ejemplo :: jsstring where
  "now_ejemplo = str ''2025-02-01T00:00:00.000Z''"

definition doc_racha :: document where
  \<comment> \<open>one person, present on the first two dates and absent on the last\<close>
  "doc_racha =
     \<lparr>version = 1, updatedAt = str ''2025-01-20T00:00:00.000Z'',
      clases = [clase_ejemplo ''c1'' ''Logos'' [alumno_ejemplo ''p1'' ''Ana'']],
      asistencias =
        [(str ''2025-01-05'', [(str ''c1'', [(str ''p1'', reg_ejemplo True)])]),
         (str ''2025-01-12'', [(str ''c1'', [(str ''p1'', reg_ejemplo True)])]),
         (str ''2025-01-19'', [(str ''c1'', [(str ''p1'', reg_ejemplo False)])])]\<rparr>"

definition doc_huerfano :: document where
  \<comment> \<open>a record under the class \<^verbatim>\<open>c2\<close>, which is not among the classes\<close>
  "doc_huerfano =
     \<lparr>version = 1, updatedAt = str ''2025-01-20T00:00:00.000Z'',
      clases = [clase_ejemplo ''c1'' ''Logos'' [alumno_ejemplo ''p1'' ''Ana'']],
      asistencias =
        [(str ''2025-01-05'', [(str ''c2'', [(str ''p1'', reg_ejemplo True)])])]\<rparr>"


definition doc_repetido :: document where
  \<comment> \<open>two classes, each with one person, both persons with the id \<^verbatim>\<open>p1\<close>\<close>
  "doc_repetido =
     \<lparr>version = 1, updatedAt = str ''2025-01-20T00:00:00.000Z'',
      clases = [clase_ejemplo ''c1'' ''Logos'' [alumno_ejemplo ''p1'' ''Ana''],
                clase_ejemplo ''c2'' ''Moriah'' [alumno_ejemplo ''p1'' ''Luis'']],
      asistencias = []\<rparr>"

definition doc_local :: document where
  "doc_local = \<lparr>version = 1, updatedAt = str ''2025-01-01T00:00:00Z'',
      clases = [clase_ejemplo ''c1'' ''Logos'' [alumno_ejemplo ''p1'' ''Ana'']], asistencias = []\<rparr>"

definition doc_remote :: document where
  "doc_remote = \<lparr>version = 1, updatedAt = str ''2025-01-02T00:00:00Z'',
      clases = [clase_ejemplo ''c1'' ''Logos'' []], asistencias = []\<rparr>"

definition valor_ejemplo :: jsval where
  "valor_ejemplo =
     JObj [(str ''version'', JNum (Finite 2)),
           (str ''clases'', JArr [JObj [(str ''id'', JStr (str ''c1''))]] [])]"




text \<open>A host for the examples, none of which reaches the built-in objects.\<close>

definition host_ejemplo :: "unit host" where
  "host_ejemplo e k1 k2 = Inr e"

text \<open>
  A host in which, as in the standard one, \<^verbatim>\<open>delete Object.prototype\<close>
  throws (the property \<^verbatim>\<open>prototype\<close> of \<^verbatim>\<open>Object\<close>, reached under the
  class id \<^verbatim>\<open>constructor\<close>, cannot be deleted); and a document with a class
  of that id, a person with the id \<^verbatim>\<open>prototype\<close> and a date without
  records.
\<close>

definition host_estricto :: "unit host" where
  "host_estricto e k1 k2 =
     (if k1 = str ''constructor'' \<and> k2 = str ''prototype'' then Inl TypeError else Inr e)"

definition doc_constructor :: document where
  "doc_constructor =
     \<lparr>version = 1, updatedAt = str ''2025-01-20T00:00:00.000Z'',
      clases = [clase_ejemplo ''constructor'' ''Logos'' [alumno_ejemplo ''prototype'' ''Ana'']],
      asistencias = [(str ''2025-01-05'', [])]\<rparr>"



section \<open>Facts about strings\<close>

lemma str_Nil: "str [] = []"
  by (simp add: str_def)

lemma str_Cons: "str (c # cs) = of_char c # str cs"
  by (simp add: str_def)

lemma str_eq_iff [simp]: "str a = str b \<longleftrightarrow> a = b"
  unfolding str_def by (rule inj_map_eq_map) (simp add: inj_on_def)

lemmas str_simps = str_Nil str_Cons

section \<open>Facts about lists and objects\<close>

lemma then_do_Inr [simp]: "then_do (Inr x) f = f x"
  by (simp add: then_do_def)

lemma then_do_Inl [simp]: "then_do (Inl e) f = Inl e"
  by (simp add: then_do_def)

lemma then_do_eq_Inr:
  "then_do r f = Inr y \<longleftrightarrow> (\<exists>x. r = Inr x \<and> f x = Inr y)"
  by (cases r) simp_all


lemma asignar_proto:
  "map_of ps (str ''__proto__'') = None \<Longrightarrow> asignar (str ''__proto__'') v ps = ps"
  by (simp add: asignar_def)

lemma count_list_filter:
  "count_list (filter P xs) c = (if P c then count_list xs c else 0)"
  by (induction xs) auto

lemma find_update_first:
  "find P xs = Some x \<Longrightarrow> P (f x) \<Longrightarrow> find P (update_first P f xs) = Some (f x)"
  by (induction xs) (auto split: if_splits)

lemma find_Some_holds: "find P xs = Some x \<Longrightarrow> P x"
  by (induction xs) (auto split: if_splits)

lemma map_of_insert_index:
  "map_of ps k = None \<Longrightarrow> map_of (insert_index k v ps) = (map_of ps)(k \<mapsto> v)"
  by (induction ps) (auto simp: fun_eq_iff)

lemma map_of_obj_set: "map_of (obj_set k v ps) = (map_of ps)(k \<mapsto> v)"
  by (auto simp: obj_set_def update_conv' map_of_insert_index fun_eq_iff map_add_def
      split: option.splits)

lemma obj_set_same: "map_of ps k = Some v \<Longrightarrow> obj_set k v ps = ps"
  by (simp add: obj_set_def update_triv)

lemma buscar_obj_set: "buscar (obj_set k v ps) k' = (if k' = k then v else buscar ps k')"
  by (simp add: buscar_def map_of_obj_set)

lemma buscar_defined: "buscar ps k = v \<Longrightarrow> v \<noteq> JUndefined \<Longrightarrow> map_of ps k = Some v"
  by (auto simp: buscar_def split: option.splits)

lemma obj_set_buscar: "buscar ps k = v \<Longrightarrow> v \<noteq> JUndefined \<Longrightarrow> obj_set k v ps = ps"
  by (simp add: obj_set_same buscar_defined)





section \<open>Facts about sorting\<close>







section \<open>The example document\<close>

lemmas ejemplo_defs = reg_ejemplo_def alumno_ejemplo_def clase_ejemplo_def

lemma asis_racha:
  "asistencias doc_racha =
     [(str ''2025-01-05'', [(str ''c1'', [(str ''p1'', reg_ejemplo True)])]),
      (str ''2025-01-12'', [(str ''c1'', [(str ''p1'', reg_ejemplo True)])]),
      (str ''2025-01-19'', [(str ''c1'', [(str ''p1'', reg_ejemplo False)])])]"
  by (simp add: doc_racha_def)

lemma fechas_racha:
  "fechas_de doc_racha = [str ''2025-01-05'', str ''2025-01-12'', str ''2025-01-19'']"
  by (simp add: fechas_de_def doc_racha_def obj_keys_def str_simps)

lemma indice_racha:
  "obj_values (indice (clases doc_racha)) =
     [entrada (clase_ejemplo ''c1'' ''Logos'' [alumno_ejemplo ''p1'' ''Ana''])
        (alumno_ejemplo ''p1'' ''Ana'')]"
  by (simp add: doc_racha_def indice_def obj_values_def asignar_def obj_set_def ejemplo_defs
      is_array_index_def is_digit_def str_simps)

section \<open>Phone normalisation\<close>

text \<open>
  C4 (as the claim states it, refuted). The claim keeps a \<^verbatim>\<open>+\<close> only at the
  head of the result. From \<^verbatim>\<open>1+2\<close> the function returns \<^verbatim>\<open>1+2\<close>: the
  \<^verbatim>\<open>+\<close> at index 1 stays.
\<close>

theorem C4_plus_inside_is_kept:
  "\<not> (\<forall>t i. i < length (normalizePhone t) \<and> normalizePhone t ! i = plus_sign \<longrightarrow> i = 0)"
proof
  assume h: "\<forall>t i. i < length (normalizePhone t) \<and> normalizePhone t ! i = plus_sign \<longrightarrow> i = 0"
  have e: "normalizePhone (Some (str ''1+2'')) = [49, 43, 50]"
    by (simp add: normalizePhone_def or_empty_def matches_not_plus_digit_def
        plus_sign_def is_digit_def str_simps)
  from h have "1 < length (normalizePhone (Some (str ''1+2''))) \<and>
       normalizePhone (Some (str ''1+2'')) ! 1 = plus_sign \<longrightarrow> (1::nat) = 0"
    by blast
  then show False
    unfolding e by (simp add: plus_sign_def)
qed

text \<open>
  C4 (amended). The result is the argument (the empty string for an absent
  one) with code units removed and none added or reordered; every digit and
  every \<^verbatim>\<open>+\<close>, wherever it stands, is kept as often as it occurs, and no
  other code unit is kept.
\<close>

theorem C4_normalizePhone_keeps_digits_and_every_plus:
  "subseq (normalizePhone t) (or_empty t) \<and>
   (\<forall>u. count_list (normalizePhone t) u =
      (if is_digit u \<or> u = plus_sign then count_list (or_empty t) u else 0))"
  by (auto simp: normalizePhone_def count_list_filter matches_not_plus_digit_def)

section \<open>changeDocente\<close>

lemma changeDocente_class_missing:
  "find (\<lambda>c. clase_id c = cId) (clases prev) = None \<Longrightarrow>
   changeDocente now cId d prev = prev\<lparr>updatedAt := now\<rparr>"
  by (simp add: changeDocente_def)

text \<open>With the class found, its teacher is set and \<open>updatedAt\<close> is the new time.\<close>

lemma changeDocente_class_found:
  assumes "find (\<lambda>c. clase_id c = cId) (clases prev) = Some cls"
  shows "find (\<lambda>c. clase_id c = cId) (clases (changeDocente now cId d prev))
           = Some (cls\<lparr>docente := d\<rparr>)"
    and "updatedAt (changeDocente now cId d prev) = now"
proof -
  have "clase_id cls = cId"
    using find_Some_holds [OF assms] .
  then show "find (\<lambda>c. clase_id c = cId) (clases (changeDocente now cId d prev))
           = Some (cls\<lparr>docente := d\<rparr>)"
    using assms find_update_first [OF assms, of "\<lambda>c. c\<lparr>docente := d\<rparr>"]
    by (simp add: changeDocente_def)
  show "updatedAt (changeDocente now cId d prev) = now"
    by (simp add: changeDocente_def Let_def)
qed

text \<open>
  C3 (the code at the failing input). No class of the example document has
  the id \<^verbatim>\<open>zz\<close>. \<open>changeDocente\<close> returns the document with a new
  \<open>updatedAt\<close>, where the claim has the document unchanged in every field.
\<close>

theorem C3_changeDocente_unknown_class_touches_updatedAt:
  "find (\<lambda>c. clase_id c = str ''zz'') (clases doc_racha) = None \<and>
   changeDocente (str ''2025-02-01T00:00:00.000Z'') (str ''zz'') (str ''Eva'') doc_racha
     = doc_racha\<lparr>updatedAt := str ''2025-02-01T00:00:00.000Z''\<rparr> \<and>
   changeDocente (str ''2025-02-01T00:00:00.000Z'') (str ''zz'') (str ''Eva'') doc_racha
     \<noteq> doc_racha"
  by (simp add: changeDocente_def doc_racha_def ejemplo_defs)

section \<open>removeAlumno\<close>

lemma removeAlumno_class_missing:
  "find (\<lambda>c. clase_id c = cId) (clases prev) = None \<Longrightarrow>
   removeAlumno host now cId aId (prev, e) = Inr (prev, e)"
  by (simp add: removeAlumno_def)

text \<open>
  Where the class id is an own key of every object it is looked up in, or
  names no property of \<^verbatim>\<open>Object.prototype\<close>, the loop does not reach
  the built-in objects and does not throw.
\<close>

lemma borrar_registro_propio:
  assumes "\<And>porClase. map_of asis f = Some porClase \<Longrightarrow>
             map_of porClase cId \<noteq> None \<or> cId \<notin> set nombres_heredados"
  shows "borrar_registro host cId aId f (asis, e) = Inr (borrar_propio cId aId f asis, e)"
proof (cases "map_of asis f")
  case None
  then show ?thesis
    by (simp add: borrar_registro_def borrar_propio_def)
next
  case (Some porClase)
  from assms [OF Some] show ?thesis
    by (auto simp: Some borrar_registro_def borrar_propio_def split: option.splits)
qed

lemma borrar_propio_keeps_own:
  assumes "\<And>g porClase. map_of asis g = Some porClase \<Longrightarrow>
             map_of porClase cId \<noteq> None \<or> cId \<notin> set nombres_heredados"
      and "map_of (borrar_propio cId aId f asis) g = Some porClase"
  shows "map_of porClase cId \<noteq> None \<or> cId \<notin> set nombres_heredados"
proof (cases "borrar_propio cId aId f asis = asis")
  case True
  with assms show ?thesis by simp
next
  case False
  then obtain pc registros r where
    b: "borrar_propio cId aId f asis =
          AList.update f (AList.update cId (AList.delete aId registros) pc) asis"
    by (auto simp: borrar_propio_def split: option.splits)
  show ?thesis
  proof (cases "g = f")
    case True
    with assms(2) have "porClase = AList.update cId (AList.delete aId registros) pc"
      by (simp add: b update_conv')
    then show ?thesis by (simp add: update_conv')
  next
    case False
    with assms(2) have "map_of asis g = Some porClase"
      by (simp add: b update_conv')
    then show ?thesis by (rule assms(1))
  qed
qed

lemma fold_err_borrar_propio:
  assumes "\<And>g porClase. map_of asis g = Some porClase \<Longrightarrow>
             map_of porClase cId \<noteq> None \<or> cId \<notin> set nombres_heredados"
  shows "fold_err (borrar_registro host cId aId) ks (asis, e) =
           Inr (fold (borrar_propio cId aId) ks asis, e)"
  using assms
proof (induction ks arbitrary: asis)
  case Nil
  then show ?case by simp
next
  case (Cons k ks)
  have "fold_err (borrar_registro host cId aId) ks (borrar_propio cId aId k asis, e) =
          Inr (fold (borrar_propio cId aId) ks (borrar_propio cId aId k asis), e)"
    by (rule Cons.IH) (rule borrar_propio_keeps_own [OF Cons.prems])
  then show ?case
    by (simp add: borrar_registro_propio [OF Cons.prems])
qed

lemma sin_lectura_heredada_map_of:
  assumes "sin_lectura_heredada cId asis" and "map_of asis g = Some porClase"
  shows "map_of porClase cId \<noteq> None \<or> cId \<notin> set nombres_heredados"
proof -
  from assms(2) have "(g, porClase) \<in> set asis"
    by (rule map_of_SomeD)
  with assms(1) show ?thesis
    unfolding sin_lectura_heredada_def list_all_iff by blast
qed

text \<open>
  A class id that does: at a date whose object has no such own key, the turn
  throws when the host does.
\<close>

lemma borrar_registro_heredado:
  "map_of asis f = Some porClase \<Longrightarrow> map_of porClase cId = None \<Longrightarrow>
   cId \<in> set nombres_heredados \<Longrightarrow> host e cId aId = Inl err \<Longrightarrow>
   borrar_registro host cId aId f (asis, e) = Inl err"
  by (simp add: borrar_registro_def)

lemma removeAlumno_constructor_prototype_throws:
  "removeAlumno host_estricto (str ''2025-02-01T00:00:00.000Z'') (str ''constructor'')
     (str ''prototype'') (doc_constructor, ()) = Inl TypeError"
  by (simp add: removeAlumno_def doc_constructor_def ejemplo_defs obj_keys_def
      borrar_registro_def nombres_heredados_def host_estricto_def)

lemma borrar_propio_at:
  "registro_de (borrar_propio cId aId f asis) f cId aId = None"
  by (simp add: borrar_propio_def registro_de_def update_conv' delete_conv'
      split: option.splits)

lemma borrar_propio_elsewhere:
  "g \<noteq> f \<Longrightarrow> map_of (borrar_propio cId aId f asis) g = map_of asis g"
  by (simp add: borrar_propio_def update_conv' split: option.splits)

lemma borrar_propio_keeps_none:
  "registro_de asis g cId aId = None \<Longrightarrow>
   registro_de (borrar_propio cId aId f asis) g cId aId = None"
proof (cases "g = f")
  case True
  then show ?thesis by (simp add: borrar_propio_at)
next
  case False
  assume "registro_de asis g cId aId = None"
  with False show ?thesis
    by (simp add: registro_de_def borrar_propio_elsewhere)
qed

lemma fold_borrar_keeps_none:
  "registro_de asis g cId aId = None \<Longrightarrow>
   registro_de (fold (borrar_propio cId aId) ks asis) g cId aId = None"
  by (induction ks arbitrary: asis) (simp_all add: borrar_propio_keeps_none)

lemma fold_borrar_clears:
  "g \<in> set ks \<Longrightarrow> registro_de (fold (borrar_propio cId aId) ks asis) g cId aId = None"
proof (induction ks arbitrary: asis)
  case Nil
  then show ?case by simp
next
  case (Cons k ks)
  show ?case
  proof (cases "g = k")
    case True
    then show ?thesis
      by (simp add: fold_borrar_keeps_none borrar_propio_at)
  next
    case False
    with Cons show ?thesis by simp
  qed
qed

lemma fold_borrar_all:
  "registro_de (fold (borrar_propio cId aId) (obj_keys asis) asis) g cId aId = None"
proof (cases "g \<in> set (obj_keys asis)")
  case True
  then show ?thesis by (rule fold_borrar_clears)
next
  case False
  then have "map_of asis g = None"
    by (simp add: obj_keys_def map_of_eq_None_iff)
  then have "registro_de asis g cId aId = None"
    by (simp add: registro_de_def)
  then show ?thesis by (rule fold_borrar_keeps_none)
qed

text \<open>
  C5 (as the claim states it, refuted). The document holds a record under
  the pair (\<^verbatim>\<open>c2\<close>, \<^verbatim>\<open>p1\<close>) and no class \<^verbatim>\<open>c2\<close>. \<open>removeAlumno\<close>
  returns the document at \<^verbatim>\<open>if (!cls) return p;\<close> and the record is still
  there.
\<close>

theorem C5_record_of_unknown_class_survives:
  "removeAlumno host_ejemplo (str ''2025-02-01T00:00:00.000Z'') (str ''c2'') (str ''p1'')
     (doc_huerfano, ()) = Inr (doc_huerfano, ()) \<and>
   registro_de (asistencias doc_huerfano) (str ''2025-01-05'') (str ''c2'') (str ''p1'')
     = Some (reg_ejemplo True)"
  by (simp add: removeAlumno_def doc_huerfano_def ejemplo_defs registro_de_def)

text \<open>
  C5 (amended). When the document has a class with the id, and the loop
  stays within the document (at every date the class id is an own key of
  the date's object or names no property of \<^verbatim>\<open>Object.prototype\<close>),
  \<open>removeAlumno\<close> returns a document and leaves the built-in objects as
  they were; the first class with the id comes out with the person filtered
  from its roster, and no date of the resulting attendance holds a record
  under the pair.
\<close>

theorem C5_removeAlumno_cascades_when_class_exists:
  assumes "find (\<lambda>c. clase_id c = cId) (clases prev) = Some cls"
      and "sin_lectura_heredada cId (asistencias prev)"
  shows "\<exists>d. removeAlumno host now cId aId (prev, e) = Inr (d, e) \<and>
           find (\<lambda>c. clase_id c = cId) (clases d) =
             Some (cls\<lparr>alumnos := filter (\<lambda>a. alumno_id a \<noteq> aId) (alumnos cls)\<rparr>) \<and>
           aId \<notin> alumno_id ` set (filter (\<lambda>a. alumno_id a \<noteq> aId) (alumnos cls)) \<and>
           (\<forall>f. registro_de (asistencias d) f cId aId = None)"
proof -
  let ?d = "prev\<lparr>clases := update_first (\<lambda>c. clase_id c = cId)
                        (\<lambda>c. c\<lparr>alumnos := filter (\<lambda>a. alumno_id a \<noteq> aId) (alumnos c)\<rparr>)
                        (clases prev),
                  asistencias := fold (borrar_propio cId aId)
                                   (obj_keys (asistencias prev)) (asistencias prev),
                  updatedAt := now\<rparr>"
  have id: "clase_id cls = cId"
    using find_Some_holds [OF assms(1)] .
  have r: "removeAlumno host now cId aId (prev, e) = Inr (?d, e)"
    using assms(1)
    by (simp add: removeAlumno_def
        fold_err_borrar_propio [OF sin_lectura_heredada_map_of [OF assms(2)]])
  have a: "find (\<lambda>c. clase_id c = cId) (clases ?d) =
           Some (cls\<lparr>alumnos := filter (\<lambda>a. alumno_id a \<noteq> aId) (alumnos cls)\<rparr>)"
    using find_update_first [OF assms(1),
        of "\<lambda>c. c\<lparr>alumnos := filter (\<lambda>a. alumno_id a \<noteq> aId) (alumnos c)\<rparr>"] id
    by simp
  have b: "\<forall>f. registro_de (asistencias ?d) f cId aId = None"
    by (simp add: fold_borrar_all)
  have c: "aId \<notin> alumno_id ` set (filter (\<lambda>a. alumno_id a \<noteq> aId) (alumnos cls))"
    by auto
  show ?thesis
    using r a b c by blast
qed

text \<open>C5, at the example document: Ana leaves the roster and her records go.\<close>

theorem C5_removeAlumno_cascades_witness:
  "find (\<lambda>c. clase_id c = str ''c1'') (clases doc_racha) =
     Some (clase_ejemplo ''c1'' ''Logos'' [alumno_ejemplo ''p1'' ''Ana'']) \<and>
   sin_lectura_heredada (str ''c1'') (asistencias doc_racha) \<and>
   registro_de (asistencias doc_racha) (str ''2025-01-05'') (str ''c1'') (str ''p1'')
     = Some (reg_ejemplo True) \<and>
   (\<exists>d. removeAlumno host_ejemplo (str ''2025-02-01T00:00:00.000Z'') (str ''c1'') (str ''p1'')
           (doc_racha, ()) = Inr (d, ()) \<and>
        find (\<lambda>c. clase_id c = str ''c1'') (clases d) = Some (clase_ejemplo ''c1'' ''Logos'' []) \<and>
        registro_de (asistencias d) (str ''2025-01-05'') (str ''c1'') (str ''p1'') = None)"
proof -
  have h: "find (\<lambda>c. clase_id c = str ''c1'') (clases doc_racha) =
     Some (clase_ejemplo ''c1'' ''Logos'' [alumno_ejemplo ''p1'' ''Ana''])"
    by (simp add: doc_racha_def ejemplo_defs)
  have n: "sin_lectura_heredada (str ''c1'') (asistencias doc_racha)"
    by (simp add: sin_lectura_heredada_def doc_racha_def)
  have e: "registro_de (asistencias doc_racha) (str ''2025-01-05'') (str ''c1'') (str ''p1'')
      = Some (reg_ejemplo True)"
    by (simp add: doc_racha_def registro_de_def)
  have f: "clase_ejemplo ''c1'' ''Logos'' [alumno_ejemplo ''p1'' ''Ana'']
      \<lparr>alumnos := filter (\<lambda>a. alumno_id a \<noteq> str ''p1'')
         (alumnos (clase_ejemplo ''c1'' ''Logos'' [alumno_ejemplo ''p1'' ''Ana'']))\<rparr>
      = clase_ejemplo ''c1'' ''Logos'' []"
    by (simp add: ejemplo_defs)
  from C5_removeAlumno_cascades_when_class_exists [OF h n,
      of host_ejemplo "str ''2025-02-01T00:00:00.000Z''" "str ''p1''" "()"]
  obtain d where
    "removeAlumno host_ejemplo (str ''2025-02-01T00:00:00.000Z'') (str ''c1'') (str ''p1'')
       (doc_racha, ()) = Inr (d, ())"
    "find (\<lambda>c. clase_id c = str ''c1'') (clases d) = Some (clase_ejemplo ''c1'' ''Logos'' [])"
    "registro_de (asistencias d) (str ''2025-01-05'') (str ''c1'') (str ''p1'') = None"
    unfolding f by blast
  with h n e show ?thesis by blast
qed

section \<open>The streak of absences\<close>

text \<open>
  C1 (the code at the failing input). Ana is present on 2025-01-05 and on
  2025-01-12 and absent on 2025-01-19, the last date. One most recent date
  without a presence: the streak of the claim is 1. The loop sets
  \<open>currentAbsentStreak\<close> back to 0 at 2025-01-05, a presence met with
  \<open>running = 0\<close>, and reports 0, whatever the collation and the rounding
  of the percentage.
\<close>

theorem C1_streak_lost_after_two_presences:
  "map currentAbsentStreak (personas porciento lc doc_racha) = [0] \<and>
   racha_segun_spec (asistencias doc_racha) (str ''c1'') (str ''p1'') (fechas_de doc_racha) = 1"
proof -
  have a: "map currentAbsentStreak (personas porciento lc doc_racha) = [0]"
    unfolding personas_def indice_racha
    by (simp add: js_sort_def medir_def Let_def fechas_racha asis_racha recorrer_def
        paso_def entrada_def ejemplo_defs registro_de_def es_presente_def
        sin_asistencia_def persona.extend_def)
  have b: "racha_segun_spec (asistencias doc_racha) (str ''c1'') (str ''p1'')
             (fechas_de doc_racha) = 1"
    unfolding fechas_racha asis_racha
    by (simp add: racha_segun_spec_def registro_de_def es_presente_def ejemplo_defs)
  show ?thesis using a b by simp
qed

section \<open>The series by date\<close>











section \<open>The entries of the statistics by person\<close>

lemma par_de_medir: "par_de (medir porciento state p) = (classId p, alumnoId p)"
  by (simp add: par_de_def medir_def Let_def persona.extend_def)

text \<open>
  C9 (the code at the failing input). Ana of class \<^verbatim>\<open>c1\<close> and Luis of
  class \<^verbatim>\<open>c2\<close> both have the id \<^verbatim>\<open>p1\<close>: two pairs (class id, person
  id), and each id once in its class. The index is keyed by the person id
  alone: the entry of Luis replaces that of Ana, and the output has the one
  entry of Luis, whatever the collation and the rounding of the percentage.
\<close>

theorem C9_shared_id_gives_one_entry:
  "pares (clases doc_repetido) = [(str ''c1'', str ''p1''), (str ''c2'', str ''p1'')] \<and>
   map par_de (personas porciento lc doc_repetido) = [(str ''c2'', str ''p1'')] \<and>
   map nombre (personas porciento lc doc_repetido) = [str ''Luis'']"
proof -
  have i: "obj_values (indice (clases doc_repetido)) =
      [entrada (clase_ejemplo ''c2'' ''Moriah'' [alumno_ejemplo ''p1'' ''Luis''])
         (alumno_ejemplo ''p1'' ''Luis'')]"
    by (simp add: doc_repetido_def indice_def obj_values_def asignar_def obj_set_def
        clase_ejemplo_def alumno_ejemplo_def is_array_index_def is_digit_def str_simps)
  have a: "map par_de (personas porciento lc doc_repetido) = [(str ''c2'', str ''p1'')]"
    unfolding personas_def i
    by (simp add: js_sort_def par_de_medir entrada_def clase_ejemplo_def alumno_ejemplo_def)
  have n: "map nombre (personas porciento lc doc_repetido) = [str ''Luis'']"
    unfolding personas_def i
    by (simp add: js_sort_def medir_def Let_def persona.extend_def entrada_def
        clase_ejemplo_def alumno_ejemplo_def)
  have b: "pares (clases doc_repetido) = [(str ''c1'', str ''p1''), (str ''c2'', str ''p1'')]"
    by (simp add: pares_def doc_repetido_def clase_ejemplo_def alumno_ejemplo_def)
  show ?thesis using a b n by simp
qed

section \<open>The normalizer\<close>

lemmas fijar_defs = fijar_def fijar_clases_def fijar_asistencias_def fijar_version_def
  fijar_updatedAt_def

lemma base_clases: "get_prop (base now) (str ''clases'') = Inr (JArr DEFAULT_CLASSES [])"
  by (simp add: base_def buscar_def)

lemma normalizar_alumno_fixed: "roster_es_lista c \<Longrightarrow> normalizar_alumno c = Inr c"
  by (cases c) (auto simp: roster_es_lista_def campo_def normalizar_alumno_def)

lemma normalizar_alumno_result: "normalizar_alumno c = Inr c' \<Longrightarrow> roster_es_lista c'"
  by (cases c)
     (auto simp: roster_es_lista_def campo_def normalizar_alumno_def buscar_obj_set
       split: if_splits)

lemma normalizar_alumno_total: "es_objeto c \<Longrightarrow> \<exists>c'. normalizar_alumno c = Inr c'"
  by (cases c) (auto simp: es_objeto_def normalizar_alumno_def)

lemma forEach_fixed:
  "list_all roster_es_lista es \<Longrightarrow> forEach normalizar_alumno es = Inr es"
  by (induction es) (simp_all add: normalizar_alumno_fixed)

lemma forEach_result:
  "forEach normalizar_alumno es = Inr es' \<Longrightarrow> list_all roster_es_lista es'"
proof (induction es arbitrary: es')
  case Nil
  then show ?case by simp
next
  case (Cons c cs)
  from Cons.prems obtain c' cs' where
    c: "normalizar_alumno c = Inr c'" and cs: "forEach normalizar_alumno cs = Inr cs'"
    and e: "es' = c' # cs'"
    by (auto simp: then_do_eq_Inr)
  show ?case
    using normalizar_alumno_result [OF c] Cons.IH [OF cs] e by simp
qed

lemma forEach_total:
  "list_all es_objeto es \<Longrightarrow> \<exists>es'. forEach normalizar_alumno es = Inr es'"
proof (induction es)
  case Nil
  then show ?case by simp
next
  case (Cons c cs)
  then obtain c' cs' where "normalizar_alumno c = Inr c'" "forEach normalizar_alumno cs = Inr cs'"
    using normalizar_alumno_total [of c] by auto
  then show ?case by simp
qed

lemma DEFAULT_CLASSES_objetos: "list_all es_objeto DEFAULT_CLASSES"
  by (simp add: DEFAULT_CLASSES_def default_clase_def es_objeto_def)

lemma DEFAULT_CLASSES_rosters: "list_all roster_es_lista DEFAULT_CLASSES"
  by (simp add: DEFAULT_CLASSES_def default_clase_def roster_es_lista_def campo_def buscar_def)

lemma buscar_fijar:
  "buscar (fijar now ps) (str ''clases'') =
     (if isArray (buscar ps (str ''clases'')) then buscar ps (str ''clases'')
      else JArr DEFAULT_CLASSES [])"
  "buscar (fijar now ps) (str ''asistencias'') =
     (if es_objeto (buscar ps (str ''asistencias'')) then buscar ps (str ''asistencias'')
      else JObj [])"
  "buscar (fijar now ps) (str ''version'') =
     (if truthy (buscar ps (str ''version'')) then buscar ps (str ''version'')
      else JNum (Finite 1))"
  "buscar (fijar now ps) (str ''updatedAt'') =
     (if truthy (buscar ps (str ''updatedAt'')) then buscar ps (str ''updatedAt'')
      else JStr now)"
  by (simp_all add: fijar_defs buscar_obj_set)

lemma fijar_fixed: "normal now ps \<Longrightarrow> fijar now ps = ps"
  by (auto simp: normal_def fijar_defs obj_set_buscar)

text \<open>The steps on an object or on an array: \<open>mk\<close> is \<open>JObj\<close> or \<open>JArr es\<close>.\<close>

lemma pasos_mk:
  assumes g: "\<And>ps k. get_prop (mk ps) k = Inr (buscar ps k)"
      and st: "\<And>ps k v. set_prop (mk ps) k v = Inr (mk (obj_set k v ps))"
  shows "poner_clases now (mk ps) = Inr (mk (fijar_clases ps))"
    and "poner_asistencias (mk ps) = Inr (mk (fijar_asistencias ps))"
    and "poner_version (mk ps) = Inr (mk (fijar_version ps))"
    and "poner_updatedAt now (mk ps) = Inr (mk (fijar_updatedAt now ps))"
  by (simp_all add: poner_clases_def poner_asistencias_def poner_version_def
      poner_updatedAt_def fijar_defs g st base_clases es_objeto_def)

lemma ensure_mk:
  assumes g: "\<And>ps k. get_prop (mk ps) k = Inr (buscar ps k)"
      and st: "\<And>ps k v. set_prop (mk ps) k v = Inr (mk (obj_set k v ps))"
      and o: "es_objeto (mk ps)"
  shows "ensureStateShape now (mk ps) =
     (case buscar (fijar now ps) (str ''clases'') of
        JArr es px \<Rightarrow>
          then_do (forEach normalizar_alumno es) (\<lambda>es'.
            Inr (mk (obj_set (str ''clases'') (JArr es' px) (fijar now ps))))
      | _ \<Rightarrow> Inl TypeError)"
proof -
  have "ensureStateShape now (mk ps) = normalizar_alumnos (mk (fijar now ps))"
    using o by (simp add: ensureStateShape_def es_objeto_def pasos_mk [OF g st] fijar_def)
  also have "\<dots> = (case buscar (fijar now ps) (str ''clases'') of
        JArr es px \<Rightarrow>
          then_do (forEach normalizar_alumno es) (\<lambda>es'.
            Inr (mk (obj_set (str ''clases'') (JArr es' px) (fijar now ps))))
      | _ \<Rightarrow> Inl TypeError)"
    by (simp add: normalizar_alumnos_def g st cong: jsval.case_cong)
  finally show ?thesis .
qed

lemma ensure_mk_fixed:
  assumes g: "\<And>ps k. get_prop (mk ps) k = Inr (buscar ps k)"
      and st: "\<And>ps k v. set_prop (mk ps) k v = Inr (mk (obj_set k v ps))"
      and o: "es_objeto (mk ps)"
      and n: "normal now ps"
  shows "ensureStateShape now (mk ps) = Inr (mk ps)"
proof -
  from n obtain es px where c: "buscar ps (str ''clases'') = JArr es px"
    by (cases "buscar ps (str ''clases'')") (auto simp: normal_def)
  with n have r: "list_all roster_es_lista es"
    by (simp add: normal_def)
  show ?thesis
    unfolding ensure_mk [OF g st o] fijar_fixed [OF n] c
    by (simp add: forEach_fixed [OF r] obj_set_buscar [OF c])
qed

lemma ensure_mk_result:
  assumes g: "\<And>ps k. get_prop (mk ps) k = Inr (buscar ps k)"
      and st: "\<And>ps k v. set_prop (mk ps) k v = Inr (mk (obj_set k v ps))"
      and o: "es_objeto (mk ps)"
      and e: "ensureStateShape now (mk ps) = Inr s'"
  shows "\<exists>ps'. s' = mk ps' \<and> normal now ps' \<and>
           buscar ps' (str ''version'') = buscar (fijar now ps) (str ''version'') \<and>
           buscar ps' (str ''updatedAt'') = buscar (fijar now ps) (str ''updatedAt'')"
proof -
  obtain es px where c: "buscar (fijar now ps) (str ''clases'') = JArr es px"
    by (cases "buscar (fijar now ps) (str ''clases'')") (auto simp: buscar_fijar split: if_splits)
  from e obtain es' where f: "forEach normalizar_alumno es = Inr es'"
    and s': "s' = mk (obj_set (str ''clases'') (JArr es' px) (fijar now ps))"
    unfolding ensure_mk [OF g st o] c by (auto simp: then_do_eq_Inr)
  have "normal now (obj_set (str ''clases'') (JArr es' px) (fijar now ps))"
    using forEach_result [OF f]
    by (simp add: normal_def buscar_obj_set buscar_fijar es_objeto_def)
  moreover have "buscar (obj_set (str ''clases'') (JArr es' px) (fijar now ps)) (str ''version'')
      = buscar (fijar now ps) (str ''version'')"
    "buscar (obj_set (str ''clases'') (JArr es' px) (fijar now ps)) (str ''updatedAt'')
      = buscar (fijar now ps) (str ''updatedAt'')"
    by (simp_all add: buscar_obj_set)
  ultimately show ?thesis using s' by blast
qed

lemma ensure_mk_total:
  assumes g: "\<And>ps k. get_prop (mk ps) k = Inr (buscar ps k)"
      and st: "\<And>ps k v. set_prop (mk ps) k v = Inr (mk (obj_set k v ps))"
      and o: "es_objeto (mk ps)"
      and h: "list_all es_objeto (elementos (buscar ps (str ''clases'')))"
  shows "\<exists>s'. ensureStateShape now (mk ps) = Inr s'"
proof -
  obtain es px where c: "buscar (fijar now ps) (str ''clases'') = JArr es px"
    by (cases "buscar (fijar now ps) (str ''clases'')") (auto simp: buscar_fijar split: if_splits)
  have "list_all es_objeto es"
    using c h DEFAULT_CLASSES_objetos by (auto simp: buscar_fijar split: if_splits)
  then obtain es' where "forEach normalizar_alumno es = Inr es'"
    using forEach_total by blast
  then show ?thesis
    unfolding ensure_mk [OF g st o] c by simp
qed

lemma es_objeto_cases:
  assumes "es_objeto s"
  obtains ps where "s = JObj ps" | es ps where "s = JArr es ps"
  using assms by (cases s) (simp_all add: es_objeto_def)

lemma campo_objeto: "es_objeto s \<Longrightarrow> campo s k = buscar (propiedades s) k"
  by (erule es_objeto_cases) (simp_all add: campo_def)

lemma ensure_not_objeto: "\<not> es_objeto s \<Longrightarrow> ensureStateShape now s = Inr (base now)"
  by (auto simp: ensureStateShape_def es_objeto_def)

lemma normal_base: "normal now (propiedades (base now))"
  by (simp add: base_def normal_def buscar_def es_objeto_def DEFAULT_CLASSES_rosters)

lemma es_objeto_base: "es_objeto (base now)"
  by (simp add: base_def es_objeto_def)

lemma ensure_fixed:
  assumes "es_objeto s" and "normal now (propiedades s)"
  shows "ensureStateShape now s = Inr s"
  using assms(1)
proof (cases rule: es_objeto_cases)
  case (1 ps)
  with assms show ?thesis
    using ensure_mk_fixed [of JObj ps now] by simp
next
  case (2 es ps)
  with assms show ?thesis
    using ensure_mk_fixed [of "JArr es" ps now] by simp
qed

lemma ensure_result:
  assumes "ensureStateShape now s = Inr s'"
  shows "es_objeto s' \<and> normal now (propiedades s') \<and>
         campo s' (str ''version'') =
           (if truthy (campo s (str ''version'')) then campo s (str ''version'')
            else JNum (Finite 1))"
proof (cases "es_objeto s")
  case False
  then have "s' = base now"
    using assms by (simp add: ensure_not_objeto)
  moreover have "campo s (str ''version'') = JUndefined"
    using False by (cases s) (simp_all add: campo_def es_objeto_def)
  ultimately show ?thesis
    by (simp add: es_objeto_base normal_base) (simp add: base_def campo_def buscar_def)
next
  case True
  then show ?thesis
  proof (cases rule: es_objeto_cases)
    case (1 ps)
    with True assms obtain ps' where "s' = JObj ps'" "normal now ps'"
      "buscar ps' (str ''version'') = buscar (fijar now ps) (str ''version'')"
      using ensure_mk_result [of JObj ps now s'] by auto
    with 1 show ?thesis
      by (simp add: es_objeto_def campo_def buscar_fijar)
  next
    case (2 es ps)
    with True assms obtain ps' where "s' = JArr es ps'" "normal now ps'"
      "buscar ps' (str ''version'') = buscar (fijar now ps) (str ''version'')"
      using ensure_mk_result [of "JArr es" ps now s'] by auto
    with 2 show ?thesis
      by (simp add: es_objeto_def campo_def buscar_fijar)
  qed
qed

lemma ensure_total:
  assumes "clases_de_objetos s"
  shows "\<exists>s'. ensureStateShape now s = Inr s'"
proof (cases "es_objeto s")
  case False
  then show ?thesis by (simp add: ensure_not_objeto)
next
  case True
  then show ?thesis
  proof (cases rule: es_objeto_cases)
    case (1 ps)
    with True assms show ?thesis
      using ensure_mk_total [of JObj ps now] by (simp add: clases_de_objetos_def campo_def)
  next
    case (2 es ps)
    with True assms show ?thesis
      using ensure_mk_total [of "JArr es" ps now] by (simp add: clases_de_objetos_def campo_def)
  qed
qed

text \<open>
  C2 (as the claim states it, refuted). A \<^verbatim>\<open>null\<close> among the classes
  makes \<^verbatim>\<open>c.alumnos\<close> throw; and the version \<open>-1\<close> is truthy, so it is
  kept, below 1.
\<close>

theorem C2_null_class_throws_and_negative_version_stays:
  "ensureStateShape now_ejemplo (JObj [(str ''clases'', JArr [JNull] [])]) = Inl TypeError \<and>
   (case ensureStateShape now_ejemplo (JObj [(str ''version'', JNum (Finite (- 1)))]) of
      Inl e \<Rightarrow> JUndefined
    | Inr s' \<Rightarrow> campo s' (str ''version'')) = JNum (Finite (- 1))"
proof -
  have b: "buscar (fijar now_ejemplo [(str ''clases'', JArr [JNull] [])]) (str ''clases'')
      = JArr [JNull] []"
    unfolding buscar_fijar by (simp add: buscar_def)
  have a: "ensureStateShape now_ejemplo (JObj [(str ''clases'', JArr [JNull] [])]) = Inl TypeError"
    by (simp add: ensure_mk [of JObj] es_objeto_def b normalizar_alumno_def)
  have c: "clases_de_objetos (JObj [(str ''version'', JNum (Finite (- 1)))])"
    by (simp add: clases_de_objetos_def campo_def buscar_def)
  from ensure_total [OF c] obtain s' where
    e: "ensureStateShape now_ejemplo (JObj [(str ''version'', JNum (Finite (- 1)))]) = Inr s'"
    by blast
  from ensure_result [OF e] have "campo s' (str ''version'') = JNum (Finite (- 1))"
    by (simp add: campo_def buscar_def)
  with a e show ?thesis by simp
qed

text \<open>
  C2 (amended). For an input whose \<^verbatim>\<open>clases\<close>, when it has such an array,
  holds objects only, the normalizer returns, and returns a well formed
  value. Its \<^verbatim>\<open>version\<close> is the one of the input when that was truthy,
  and 1 otherwise.
\<close>

theorem C2_ensureStateShape_well_formed:
  assumes "now \<noteq> []" and "clases_de_objetos s"
  shows "\<exists>s'. ensureStateShape now s = Inr s' \<and> bien_formado s' \<and>
           campo s' (str ''version'') =
             (if truthy (campo s (str ''version'')) then campo s (str ''version'')
              else JNum (Finite 1))"
proof -
  from ensure_total [OF assms(2)] obtain s' where e: "ensureStateShape now s = Inr s'"
    by blast
  note r = ensure_result [OF e]
  then have o: "es_objeto s'" and n: "normal now (propiedades s')"
    by simp_all
  have "bien_formado s'"
    using o n assms(1) by (auto simp: bien_formado_def normal_def campo_objeto)
  with e r show ?thesis by blast
qed

text \<open>C2, at an object with a version and one class that has no roster.\<close>

theorem C2_ensureStateShape_well_formed_witness:
  "now_ejemplo \<noteq> [] \<and> clases_de_objetos valor_ejemplo \<and>
   (\<exists>s'. ensureStateShape now_ejemplo valor_ejemplo = Inr s' \<and> bien_formado s' \<and>
      campo s' (str ''version'') = JNum (Finite 2))"
proof -
  have n: "now_ejemplo \<noteq> []"
    by (simp add: now_ejemplo_def str_simps)
  have c: "clases_de_objetos valor_ejemplo"
    by (simp add: valor_ejemplo_def clases_de_objetos_def campo_def buscar_def es_objeto_def)
  have v: "campo valor_ejemplo (str ''version'') = JNum (Finite 2)"
    by (simp add: valor_ejemplo_def campo_def buscar_def)
  show ?thesis
    using n c C2_ensureStateShape_well_formed [OF n c] unfolding v by simp
qed

text \<open>
  C6. Normalizing what the normalizer returned gives the same value, with
  the same timestamp at hand; and when the first call throws, so does the
  composition.
\<close>

theorem C6_ensureStateShape_idempotent:
  "then_do (ensureStateShape now x) (ensureStateShape now) = ensureStateShape now x"
proof (cases "ensureStateShape now x")
  case (Inl e)
  then show ?thesis by simp
next
  case (Inr s')
  then have "ensureStateShape now s' = Inr s'"
    using ensure_result [OF Inr] ensure_fixed by blast
  with Inr show ?thesis by simp
qed

text \<open>C6, at the same object: the value returned, and the second call on it.\<close>

theorem C6_ensureStateShape_idempotent_witness:
  "ensureStateShape now_ejemplo valor_ejemplo =
     Inr (JObj [(str ''version'', JNum (Finite 2)),
                (str ''clases'',
                 JArr [JObj [(str ''id'', JStr (str ''c1'')),
                             (str ''alumnos'', JArr [] [])]] []),
                (str ''asistencias'', JObj []),
                (str ''updatedAt'', JStr now_ejemplo)]) \<and>
   then_do (ensureStateShape now_ejemplo valor_ejemplo) (ensureStateShape now_ejemplo) =
     ensureStateShape now_ejemplo valor_ejemplo"
proof -
  have e: "ensureStateShape now_ejemplo valor_ejemplo =
     Inr (JObj [(str ''version'', JNum (Finite 2)),
                (str ''clases'',
                 JArr [JObj [(str ''id'', JStr (str ''c1'')),
                             (str ''alumnos'', JArr [] [])]] []),
                (str ''asistencias'', JObj []),
                (str ''updatedAt'', JStr now_ejemplo)])"
    by (simp add: valor_ejemplo_def ensureStateShape_def poner_clases_def
        poner_asistencias_def poner_version_def poner_updatedAt_def normalizar_alumnos_def
        normalizar_alumno_def buscar_def obj_set_def is_array_index_def is_digit_def
        str_simps)
  show ?thesis
    using e C6_ensureStateShape_idempotent [of now_ejemplo valor_ejemplo] by simp
qed

section \<open>Startup reconciliation\<close>

lemma roster_clase_js: "roster_es_lista (clase_js c)"
  by (simp add: roster_es_lista_def clase_js_def campo_def buscar_def)

lemma ensure_document_js:
  assumes "normalizado d"
  shows "ensureStateShape now (document_js d) = Inr (document_js d)"
proof (rule ensure_fixed)
  show "es_objeto (document_js d)"
    by (simp add: document_js_def es_objeto_def)
  show "normal now (propiedades (document_js d))"
    using assms
    by (simp add: document_js_def normal_def buscar_def es_objeto_def obj_js_def
        normalizado_def list_all_iff roster_clase_js)
qed

lemma remote_is_newer_iff:
  assumes "updatedAt local \<noteq> []" and "updatedAt remote \<noteq> []"
  shows "remote_is_newer tn local remote \<longleftrightarrow> updatedAt local < updatedAt remote"
  using assms by (simp add: remote_is_newer_def o_cero_def)

lemma remote_is_newer_equal:
  "updatedAt remote = updatedAt local \<Longrightarrow> \<not> remote_is_newer tn local remote"
  by (simp add: remote_is_newer_def o_cero_def)

text \<open>
  C7. For two normalized documents, the state set at startup is the remote
  document when its \<open>updatedAt\<close> is greater than the local one in the
  order of the strings, and the local document otherwise.
\<close>

theorem C7_newer_timestamp_wins:
  assumes "normalizado local" and "normalizado remote"
  shows "estado_inicial now tn local remote =
           Inr (document_js (if updatedAt local < updatedAt remote then remote else local))"
proof -
  have "newer tn local remote = (if updatedAt local < updatedAt remote then remote else local)"
    using assms by (simp add: newer_def remote_is_newer_iff normalizado_def)
  moreover have "normalizado (newer tn local remote)"
    using assms by (simp add: newer_def)
  ultimately show ?thesis
    by (simp add: estado_inicial_def ensure_document_js)
qed

text \<open>C7, at the timestamps of the specification: the remote document is the later one.\<close>

theorem C7_newer_timestamp_wins_witness:
  "normalizado doc_local \<and> normalizado doc_remote \<and>
   updatedAt doc_local < updatedAt doc_remote \<and>
   estado_inicial now_ejemplo (\<lambda>s. NaN) doc_local doc_remote = Inr (document_js doc_remote)"
proof -
  have l: "normalizado doc_local" and r: "normalizado doc_remote"
    by (simp_all add: normalizado_def doc_local_def doc_remote_def str_simps)
  have lt: "updatedAt doc_local < updatedAt doc_remote"
    by (simp add: doc_local_def doc_remote_def str_simps)
  show ?thesis
    using l r lt C7_newer_timestamp_wins [OF l r, of now_ejemplo "\<lambda>s. NaN"] by simp
qed

text \<open>
  C10. The remote document is taken exactly when its \<open>updatedAt\<close> is
  strictly greater; with equal timestamps the local document is the state.
\<close>

theorem C10_equal_timestamps_keep_local:
  assumes "normalizado local" and "normalizado remote"
  shows "(remote_is_newer tn local remote \<longleftrightarrow> updatedAt local < updatedAt remote) \<and>
         (updatedAt remote = updatedAt local \<longrightarrow>
            estado_inicial now tn local remote = Inr (document_js local))"
proof -
  have a: "remote_is_newer tn local remote \<longleftrightarrow> updatedAt local < updatedAt remote"
    using assms by (simp add: remote_is_newer_iff normalizado_def)
  have "estado_inicial now tn local remote = Inr (document_js local)"
    if "updatedAt remote = updatedAt local"
    using that assms(1)
    by (simp add: estado_inicial_def newer_def remote_is_newer_equal ensure_document_js)
  with a show ?thesis by simp
qed

text \<open>C10, at two documents that differ in their rosters and share a timestamp.\<close>

theorem C10_equal_timestamps_keep_local_witness:
  "normalizado doc_local \<and> normalizado (doc_remote\<lparr>updatedAt := updatedAt doc_local\<rparr>) \<and>
   doc_remote\<lparr>updatedAt := updatedAt doc_local\<rparr> \<noteq> doc_local \<and>
   \<not> remote_is_newer (\<lambda>s. NaN) doc_local (doc_remote\<lparr>updatedAt := updatedAt doc_local\<rparr>) \<and>
   estado_inicial now_ejemplo (\<lambda>s. NaN) doc_local (doc_remote\<lparr>updatedAt := updatedAt doc_local\<rparr>)
     = Inr (document_js doc_local)"
proof -
  have l: "normalizado doc_local"
    and r: "normalizado (doc_remote\<lparr>updatedAt := updatedAt doc_local\<rparr>)"
    by (simp_all add: normalizado_def doc_local_def doc_remote_def str_simps)
  have d: "doc_remote\<lparr>updatedAt := updatedAt doc_local\<rparr> \<noteq> doc_local"
    by (simp add: doc_local_def doc_remote_def clase_ejemplo_def)
  show ?thesis
    using l r d C10_equal_timestamps_keep_local [OF l r, of "\<lambda>s. NaN" now_ejemplo] by simp
qed

end
